theory Spec2Isabelle
  imports Complex_Main "HOL-Library.AList"
begin

section \<open>The GDN bridge (gdn\_bridge.py)\<close>

text \<open>
  A shallow embedding of \<^verbatim>\<open>src/python/tk_framework_gdn/gdn_bridge.py\<close>: the
  \<^verbatim>\<open>timeout\<close> decorator, the class \<^verbatim>\<open>GDNBridge\<close> with its senders, its
  host queries and its forwarding handlers. Every method takes the bridge's state and returns
  its result (\<open>Inl\<close> a raised exception, \<open>Inr\<close> a returned value) with the state it leaves.

  What the file imports and does not define (the JSON codec, \<^verbatim>\<open>int\<close> and \<^verbatim>\<open>float\<close> on
  strings, \<^verbatim>\<open>six.ensure_str\<close>, the host application's accessors, the base class
  \<^verbatim>\<open>Communicator\<close>) is a parameter of the method that calls it, so a theorem holds for
  whatever these do. Section "Reference library" gives small versions of them to run the model
  on concrete inputs.
\<close>

subsection \<open>Values, exceptions, state\<close>

text \<open>
  The exceptions met in this file. Each is a subclass of Python's \<^verbatim>\<open>Exception\<close>, so
  \<^verbatim>\<open>except Exception\<close> catches every value of this type; the interpreter's signals that
  derive from \<^verbatim>\<open>BaseException\<close> only (a keyboard interrupt, an exit) are not modelled.
\<close>

datatype exn =
    RPCTimeoutError string
  | ValueError string
  | TypeError string
  | AttributeError string
  | RuntimeError string
  | OverflowError string

text \<open>
  Python values: what JSON decodes to and encodes from, without floats, and \<open>PObj\<close> for an
  object known by a name only (a host proxy, a value the JSON encoder does not know). A
  dictionary is an association list with distinct keys, in insertion order.
\<close>

datatype pyval =
    PNone
  | PBool bool
  | PInt int
  | PStr string
  | PList "pyval list"
  | PDict "(pyval \<times> pyval) list"
  | PObj string

text \<open>
  A timeout as \<^verbatim>\<open>os.environ.get(name, default)\<close> gives it: the float default, or the
  environment's string. A float is a rational here: the two defaults are, and infinities and
  \<^verbatim>\<open>nan\<close> are not modelled.
\<close>

datatype setting = Number rat | Text string

text \<open>The events \<^verbatim>\<open>MessageEmitter\<close> declares as signals.\<close>

datatype event =
    logging_received pyval pyval
  | command_received int
  | run_tests_request_received
  | state_requested
  | active_document_changed pyval
  | gdn_hwnd int

text \<open>The forwarding methods, as the values \<^verbatim>\<open>self._io.on\<close> registers.\<close>

datatype handler =
    forward_logging_h
  | forward_command_h
  | forward_run_tests_h
  | forward_state_request_h
  | forward_active_document_changed_h
  | forward_gdn_hwnd_h

datatype logger = module_logger | self_logger

datatype level = DEBUG | WARNING

text \<open>The argument of a \<^verbatim>\<open>%s\<close> in a log line, kept unformatted.\<close>

datatype logarg = NoArg | StrArg string | ValArg pyval | SettingArg setting

text \<open>
  The state a method can change: the handlers registered on the transport, the messages given
  to \<^verbatim>\<open>self._io.emit\<close> (name and payload), the events emitted on the signals, the log
  records, and the exceptions that ended a thread other than the caller's.
\<close>

record bridge =
  handlers :: "(string \<times> handler) list"
  outbox :: "(string \<times> string option) list"
  published :: "event list"
  logged :: "(logger \<times> level \<times> string \<times> logarg) list"
  thread_errors :: "exn list"

type_synonym 'a result = "(exn + 'a) \<times> bridge"

definition log_debug :: "logger \<Rightarrow> string \<Rightarrow> logarg \<Rightarrow> bridge \<Rightarrow> bridge" where
  "log_debug l template a st = st\<lparr>logged := logged st @ [(l, DEBUG, template, a)]\<rparr>"

definition log_warning :: "logger \<Rightarrow> string \<Rightarrow> logarg \<Rightarrow> bridge \<Rightarrow> bridge" where
  "log_warning l template a st = st\<lparr>logged := logged st @ [(l, WARNING, template, a)]\<rparr>"

definition io_emit :: "string \<Rightarrow> string option \<Rightarrow> bridge \<Rightarrow> bridge" where
  \<comment> \<open>\<^verbatim>\<open>self._io.emit(name)\<close> and \<^verbatim>\<open>self._io.emit(name, payload)\<close>: the transport takes
      the message and the call returns.\<close>
  "io_emit name payload st = st\<lparr>outbox := outbox st @ [(name, payload)]\<rparr>"

definition io_on :: "string \<Rightarrow> handler \<Rightarrow> bridge \<Rightarrow> bridge" where
  "io_on name h st = st\<lparr>handlers := handlers st @ [(name, h)]\<rparr>"

definition signal_emit :: "event \<Rightarrow> bridge \<Rightarrow> bridge" where
  \<comment> \<open>\<^verbatim>\<open>signal.emit(...)\<close>: the event, with the Python values given to \<^verbatim>\<open>emit\<close>, reaches
      the signal's subscribers. Qt's conversion of the values to the signal's declared types
      is not modelled.\<close>
  "signal_emit ev st = st\<lparr>published := published st @ [ev]\<rparr>"

subsection \<open>Senders\<close>

definition log_data :: "pyval \<Rightarrow> pyval \<Rightarrow> pyval" where
  \<comment> \<open>The dictionary \<^verbatim>\<open>{"level": level, "msg": msg}\<close>.\<close>
  "log_data lvl msg = PDict [(PStr ''level'', lvl), (PStr ''msg'', msg)]"

definition log_message ::
  "(pyval \<Rightarrow> exn + string) \<Rightarrow> pyval \<Rightarrow> pyval \<Rightarrow> bridge \<Rightarrow> unit result" where
  "log_message dumps lvl msg st =
     (case dumps (log_data lvl msg) of
        Inl e \<Rightarrow> (Inl e, st)
      | Inr json_log_data \<Rightarrow> (Inr (), io_emit ''log_message'' (Some json_log_data) st))"







subsection \<open>The timeout decorator\<close>

text \<open>
  \<^verbatim>\<open>threading.Timer(interval, function)\<close> is a thread of its own: started, it waits
  \<open>interval\<close> seconds on its \<open>finished\<close> flag and then calls \<open>function\<close>, unless
  \<^verbatim>\<open>cancel()\<close> set the flag first. The wait takes no interval above the platform's
  largest timeout (\<^verbatim>\<open>threading.TIMEOUT_MAX\<close> gives it, rounded down to a whole second):
  with one, the thread ends at once with \<^verbatim>\<open>OverflowError\<close> and never calls \<open>function\<close>. What ends the timer's thread (that
  error, or what \<open>function\<close> raises) is recorded in \<open>thread_errors\<close>; it is not raised in the
  thread that started the timer.
\<close>

datatype timer_phase = Created | Started | Fired | Cancelled | Crashed

record timer =
  interval :: rat
  phase :: timer_phase
  finished :: bool

definition Timer :: "rat \<Rightarrow> timer" where
  "Timer d = \<lparr>interval = d, phase = Created, finished = False\<rparr>"

definition thread_dies :: "exn \<Rightarrow> bridge \<Rightarrow> bridge" where
  \<comment> \<open>A thread other than the caller's ends with \<open>e\<close>.\<close>
  "thread_dies e st = st\<lparr>thread_errors := thread_errors st @ [e]\<rparr>"

definition start :: "rat \<Rightarrow> timer \<Rightarrow> bridge \<Rightarrow> timer \<times> bridge" where
  \<comment> \<open>\<^verbatim>\<open>timer.start()\<close> on a new timer (the wrapper starts each timer once): the call
      returns and the timer's thread begins its wait, which an interval above
      \<open>timeout_max\<close> ends at once with \<^verbatim>\<open>OverflowError\<close>.\<close>
  "start timeout_max t st =
     (if phase t = Created then
        (if timeout_max < interval t then
           (t\<lparr>phase := Crashed\<rparr>, thread_dies (OverflowError ''timeout value is too large'') st)
         else (t\<lparr>phase := Started\<rparr>, st))
      else (t, st))"

definition cancel :: "timer \<Rightarrow> timer" where
  \<comment> \<open>\<^verbatim>\<open>timer.cancel()\<close> sets the flag: a timer still waiting never calls its function;
      one whose thread has ended is not changed otherwise.\<close>
  "cancel t =
     t\<lparr>finished := True,
       phase := (if phase t = Started \<or> phase t = Created then Cancelled else phase t)\<rparr>"

definition handle_timeout :: "string \<Rightarrow> exn + unit" where
  "handle_timeout error_message = Inl (RPCTimeoutError error_message)"

definition timer_run :: "bool \<Rightarrow> string \<Rightarrow> rat \<Rightarrow> timer \<Rightarrow> bridge \<Rightarrow> timer \<times> bridge" where
  \<comment> \<open>The thread of a waiting timer while the thread that started it is busy for \<open>dt\<close>
      seconds: when the interval is over first, it calls the function, and sets the flag if
      the function returns. When the interval ends at the very instant the caller is done,
      \<open>timer_first\<close> says whether the scheduler ran the timer's thread before the caller's
      \<^verbatim>\<open>cancel()\<close>.\<close>
  "timer_run timer_first error_message dt t st =
     (if phase t = Started \<and> (interval t < dt \<or> (interval t = dt \<and> timer_first)) then
        (case handle_timeout error_message of
           Inl e \<Rightarrow> (t\<lparr>phase := Fired\<rparr>, thread_dies e st)
         | Inr _ \<Rightarrow> (t\<lparr>phase := Fired, finished := True\<rparr>, st))
      else (t, st))"

text \<open>
  A decorated callable, run from a state: the seconds it takes, how it ends, the state it
  leaves. A callable that never ends is not modelled; around it the wrapper never ends
  either, since nothing interrupts the caller's thread.
\<close>

record 'a run =
  elapsed :: rat
  outcome :: "exn + 'a"
  after :: bridge

text \<open>
  What a call of the wrapper gives: its result to the caller, the timer it leaves (none when
  none was made), whether the decorated callable was called, and the state.
\<close>

record 'a call =
  returned :: "exn + 'a"
  timer_left :: "timer option"
  invoked :: bool
  final :: bridge

definition py_float :: "(string \<Rightarrow> exn + rat) \<Rightarrow> setting \<Rightarrow> exn + rat" where
  \<comment> \<open>\<^verbatim>\<open>float(seconds)\<close>: a float is itself, a string is parsed.\<close>
  "py_float str_to_float x = (case x of Number q \<Rightarrow> Inr q | Text s \<Rightarrow> str_to_float s)"

definition timeout ::
  "(string \<Rightarrow> exn + rat) \<Rightarrow> rat \<Rightarrow> bool \<Rightarrow> setting \<Rightarrow> string \<Rightarrow> (bridge \<Rightarrow> 'a run) \<Rightarrow> bridge
     \<Rightarrow> 'a call" where
  \<comment> \<open>\<^verbatim>\<open>timeout(seconds, error_message)(func)\<close>, called: the body of \<^verbatim>\<open>wrapper\<close>.
      \<open>timeout_max\<close> is the platform's largest timeout.\<close>
  "timeout str_to_float timeout_max timer_first seconds error_message func st =
     (case py_float str_to_float seconds of
        Inl e \<Rightarrow> \<lparr>returned = Inl e, timer_left = None, invoked = False, final = st\<rparr>
      | Inr d \<Rightarrow>
          (let t0 = Timer d;
               (t1, st1) = start timeout_max t0 st;
               r = func st1;
               (t2, st2) = timer_run timer_first error_message (elapsed r) t1 (after r);
               t3 = cancel t2
           in \<lparr>returned = outcome r, timer_left = Some t3, invoked = True, final = st2\<rparr>))"

subsection \<open>The class: configuration, construction, timed methods\<close>

record config =
  SHOTGUN_GDN_RESPONSE_TIMEOUT :: setting
  SHOTGUN_GDN_HEARTBEAT_TIMEOUT :: setting

definition environ_get :: "(string \<rightharpoonup> string) \<Rightarrow> string \<Rightarrow> setting \<Rightarrow> setting" where
  "environ_get environ name fallback =
     (case environ name of None \<Rightarrow> fallback | Some v \<Rightarrow> Text v)"

definition GDNBridge_class :: "(string \<rightharpoonup> string) \<Rightarrow> config" where
  \<comment> \<open>The class body's two attributes, evaluated once, when the class is defined.\<close>
  "GDNBridge_class environ =
     \<lparr>SHOTGUN_GDN_RESPONSE_TIMEOUT =
        environ_get environ ''SHOTGUN_GDN_RESPONSE_TIMEOUT'' (Number 300),
      SHOTGUN_GDN_HEARTBEAT_TIMEOUT =
        environ_get environ ''SHOTGUN_GDN_HEARTBEAT_TIMEOUT'' (Number (1 / 2))\<rparr>"

definition init :: "config \<Rightarrow> bridge \<Rightarrow> unit result" where
  \<comment> \<open>\<^verbatim>\<open>__init__\<close>, from the state \<^verbatim>\<open>Communicator.__init__\<close> leaves.\<close>
  "init cls base =
     (let st1 = log_debug self_logger ''SHOTGUN_GDN_RESPONSE_TIMEOUT is %s''
                  (SettingArg (SHOTGUN_GDN_RESPONSE_TIMEOUT cls)) base;
          st2 = log_debug self_logger ''SHOTGUN_GDN_HEARTBEAT_TIMEOUT is %s''
                  (SettingArg (SHOTGUN_GDN_HEARTBEAT_TIMEOUT cls)) st1;
          st3 = log_debug self_logger ''Setting up event connections'' NoArg st2;
          st4 = io_on ''logging'' forward_logging_h st3;
          st5 = io_on ''command'' forward_command_h st4;
          st6 = io_on ''run_tests'' forward_run_tests_h st5;
          st7 = io_on ''state_requested'' forward_state_request_h st6;
          st8 = io_on ''active_document_changed'' forward_active_document_changed_h st7;
          st9 = io_on ''gdn_hwnd'' forward_gdn_hwnd_h st8
      in (Inr (), st9))"

definition ping ::
  "(string \<Rightarrow> exn + rat) \<Rightarrow> rat \<Rightarrow> bool \<Rightarrow> config \<Rightarrow> (bridge \<Rightarrow> 'a run) \<Rightarrow> bridge
     \<Rightarrow> pyval call" where
  \<comment> \<open>\<open>super_ping\<close> is \<^verbatim>\<open>Communicator.ping\<close>; its value is dropped.\<close>
  "ping str_to_float timeout_max timer_first cls super_ping =
     timeout str_to_float timeout_max timer_first (SHOTGUN_GDN_HEARTBEAT_TIMEOUT cls)
       ''Ping timed out.''
       (\<lambda>st. let r = super_ping st in
          \<lparr>elapsed = elapsed r,
           outcome = (case outcome r of Inl e \<Rightarrow> Inl e | Inr _ \<Rightarrow> Inr PNone),
           after = after r\<rparr>)"

definition wait_for_response ::
  "(string \<Rightarrow> exn + rat) \<Rightarrow> rat \<Rightarrow> bool \<Rightarrow> config \<Rightarrow> ('u \<Rightarrow> bridge \<Rightarrow> 'a run) \<Rightarrow> 'u \<Rightarrow> bridge
     \<Rightarrow> 'a call" where
  \<comment> \<open>\<open>super_wait\<close> is \<^verbatim>\<open>Communicator._wait_for_response\<close>.\<close>
  "wait_for_response str_to_float timeout_max timer_first cls super_wait uid =
     timeout str_to_float timeout_max timer_first (SHOTGUN_GDN_RESPONSE_TIMEOUT cls)
       ''Timed out waiting for response.'' (\<lambda>st. super_wait uid st)"

subsection \<open>Host queries\<close>

fun truthy :: "pyval \<Rightarrow> bool" where
  \<comment> \<open>Python's truth value; an object known by name only is true, as an object is unless
      its class says otherwise.\<close>
  "truthy PNone = False"
| "truthy (PBool b) = b"
| "truthy (PInt n) = (n \<noteq> 0)"
| "truthy (PStr s) = (s \<noteq> [])"
| "truthy (PList xs) = (xs \<noteq> [])"
| "truthy (PDict kvs) = (kvs \<noteq> [])"
| "truthy (PObj _) = True"

definition get_active_document :: "(bridge \<Rightarrow> pyval result) \<Rightarrow> bridge \<Rightarrow> pyval result" where
  \<comment> \<open>\<open>activeDocument\<close> is the read of \<^verbatim>\<open>self.app.activeDocument\<close>. The block
      \<^verbatim>\<open>with self.response_logging_silenced()\<close>, of the base class, is taken to change
      nothing that the state records.\<close>
  "get_active_document activeDocument st =
     (case activeDocument st of
        (Inl e, st1) \<Rightarrow>
          (Inr PNone,
           log_warning module_logger ''Failed to get Active Document from GDN'' NoArg st1)
      | (Inr doc, st1) \<Rightarrow> (Inr doc, st1))"

definition get_active_document_path ::
  "(bridge \<Rightarrow> pyval result) \<Rightarrow> (pyval \<Rightarrow> bridge \<Rightarrow> pyval result) \<Rightarrow>
   (pyval \<Rightarrow> bridge \<Rightarrow> pyval result) \<Rightarrow> (pyval \<Rightarrow> exn + pyval) \<Rightarrow> bridge \<Rightarrow> pyval result" where
  \<comment> \<open>\<open>fullName\<close> and \<open>fsName\<close> are the two attribute reads of \<^verbatim>\<open>doc.fullName.fsName\<close>,
      \<open>ensure_str\<close> is \<^verbatim>\<open>six.ensure_str\<close>.\<close>
  "get_active_document_path activeDocument fullName fsName ensure_str st =
     (case get_active_document activeDocument st of
        (Inl e, st1) \<Rightarrow> (Inl e, st1)
      | (Inr doc, st1) \<Rightarrow>
          if \<not> truthy doc then (Inr PNone, st1)
          else
            (let (path, st2) =
                   (case fullName doc st1 of
                      (Inl e, s) \<Rightarrow> (PNone, s)
                    | (Inr full_name, s) \<Rightarrow>
                        (case fsName full_name s of
                           (Inl e, s') \<Rightarrow> (PNone, s')
                         | (Inr p, s') \<Rightarrow> (p, s')))
             in if path \<noteq> PNone then
                  (case ensure_str path of
                     Inl e \<Rightarrow> (Inl e, st2)
                   | Inr p \<Rightarrow> (Inr p, st2))
                else (Inr path, st2)))"

subsection \<open>Forwarding handlers\<close>

definition py_int :: "(string \<Rightarrow> exn + int) \<Rightarrow> pyval \<Rightarrow> exn + int" where
  \<comment> \<open>\<^verbatim>\<open>int(x)\<close>: an integer is itself, a boolean is 0 or 1, a string is parsed, anything
      else is a type error.\<close>
  "py_int str_to_int x =
     (case x of
        PInt n \<Rightarrow> Inr n
      | PBool b \<Rightarrow> Inr (if b then 1 else 0)
      | PStr s \<Rightarrow> str_to_int s
      | _ \<Rightarrow> Inl (TypeError ''int() argument must be a string or a number''))"

definition dict_get :: "(pyval \<times> pyval) list \<Rightarrow> string \<Rightarrow> pyval" where
  \<comment> \<open>\<^verbatim>\<open>dict.get(key)\<close>: the key's value, or \<^verbatim>\<open>None\<close>.\<close>
  "dict_get kvs key = (case map_of kvs (PStr key) of None \<Rightarrow> PNone | Some v \<Rightarrow> v)"

definition py_get :: "pyval \<Rightarrow> string \<Rightarrow> exn + pyval" where
  \<comment> \<open>\<^verbatim>\<open>x.get(key)\<close>: nothing that is modelled but a dictionary has a \<^verbatim>\<open>get\<close>.\<close>
  "py_get x key =
     (case x of
        PDict kvs \<Rightarrow> Inr (dict_get kvs key)
      | _ \<Rightarrow> Inl (AttributeError ''get''))"

definition forward_active_document_changed ::
  "(string \<Rightarrow> exn + pyval) \<Rightarrow> string \<Rightarrow> bridge \<Rightarrow> unit result" where
  "forward_active_document_changed loads response st =
     (let st1 = log_debug self_logger ''Emitting active_document_changed signal.'' NoArg st in
      case loads response of
        Inl e \<Rightarrow> (Inl e, st1)
      | Inr v \<Rightarrow>
          (case py_get v ''active_document_path'' of
             Inl e \<Rightarrow> (Inl e, st1)
           | Inr p \<Rightarrow> (Inr (), signal_emit (active_document_changed p) st1)))"

definition forward_gdn_hwnd ::
  "(string \<Rightarrow> exn + pyval) \<Rightarrow> (string \<Rightarrow> exn + int) \<Rightarrow> string \<Rightarrow> bridge \<Rightarrow> unit result" where
  "forward_gdn_hwnd loads str_to_int response st =
     (let st1 = log_debug self_logger ''Emitting gdn_hwnd_changed signal.'' NoArg st in
      case loads response of
        Inl e \<Rightarrow> (Inl e, st1)
      | Inr v \<Rightarrow>
          (case py_int str_to_int v of
             Inl e \<Rightarrow> (Inl e, st1)
           | Inr n \<Rightarrow> (Inr (), signal_emit (gdn_hwnd n) st1)))"

definition forward_command ::
  "(string \<Rightarrow> exn + pyval) \<Rightarrow> (string \<Rightarrow> exn + int) \<Rightarrow> string \<Rightarrow> bridge \<Rightarrow> unit result" where
  "forward_command loads str_to_int response st =
     (let st1 = log_debug self_logger ''Emitting command_received signal.'' NoArg st in
      case loads response of
        Inl e \<Rightarrow> (Inl e, st1)
      | Inr v \<Rightarrow>
          (case py_int str_to_int v of
             Inl e \<Rightarrow> (Inl e, st1)
           | Inr n \<Rightarrow> (Inr (), signal_emit (command_received n) st1)))"

definition forward_logging ::
  "(string \<Rightarrow> exn + pyval) \<Rightarrow> string \<Rightarrow> bridge \<Rightarrow> unit result" where
  "forward_logging loads response st =
     (case loads response of
        Inl e \<Rightarrow> (Inl e, st)
      | Inr v \<Rightarrow>
          (let st1 = log_debug self_logger ''Got logging command - forwarding to Qt %s''
                       (ValArg v) st in
           case py_get v ''level'' of
             Inl e \<Rightarrow> (Inl e, st1)
           | Inr lvl \<Rightarrow>
               (case py_get v ''message'' of
                  Inl e \<Rightarrow> (Inl e, st1)
                | Inr msg \<Rightarrow> (Inr (), signal_emit (logging_received lvl msg) st1))))"

definition forward_run_tests :: "string \<Rightarrow> bridge \<Rightarrow> unit result" where
  "forward_run_tests response st =
     (Inr (),
      signal_emit run_tests_request_received
        (log_debug self_logger ''Emitting run_tests_request_received signal.'' NoArg st))"

definition forward_state_request :: "string \<Rightarrow> bridge \<Rightarrow> unit result" where
  "forward_state_request response st =
     (Inr (),
      signal_emit state_requested
        (log_debug self_logger ''Emitting state_requested signal.'' NoArg st))"

fun run_handler ::
  "(string \<Rightarrow> exn + pyval) \<Rightarrow> (string \<Rightarrow> exn + int) \<Rightarrow> handler \<Rightarrow> string \<Rightarrow> bridge \<Rightarrow> unit result" where
  "run_handler loads str_to_int forward_logging_h = forward_logging loads"
| "run_handler loads str_to_int forward_command_h = forward_command loads str_to_int"
| "run_handler loads str_to_int forward_run_tests_h = forward_run_tests"
| "run_handler loads str_to_int forward_state_request_h = forward_state_request"
| "run_handler loads str_to_int forward_active_document_changed_h =
     forward_active_document_changed loads"
| "run_handler loads str_to_int forward_gdn_hwnd_h = forward_gdn_hwnd loads str_to_int"

definition deliver ::
  "(string \<Rightarrow> exn + pyval) \<Rightarrow> (string \<Rightarrow> exn + int) \<Rightarrow> string \<Rightarrow> string \<Rightarrow> bridge \<Rightarrow> unit result" where
  \<comment> \<open>Modelled from the spec: the transport's dispatch of an inbound message, which is not
      in this file (section 4.3: it looks the message name up and, if found, calls the
      handler registered for it).\<close>
  "deliver loads str_to_int name payload st =
     (case map_of (handlers st) name of
        None \<Rightarrow> (Inr (), st)
      | Some h \<Rightarrow> run_handler loads str_to_int h payload st)"

subsection \<open>Reference library\<close>

text \<open>
  Small versions of the library calls the methods take as parameters, to run the model on
  concrete inputs. Strings are lists of 8-bit characters. The encoder \<open>json_dumps\<close> follows
  \<^verbatim>\<open>json.dumps\<close> with its default options on every value of \<open>pyval\<close>. The decoder
  \<open>json_loads\<close> and the parsers \<open>int_of_str\<close> and \<open>float_of_str\<close> cover a fragment: JSON texts
  whose numbers are integers and whose strings have no escape, decimal integers with an optional
  sign, decimal numbers with an optional sign and fraction. On the fragment, and on a text that
  is no JSON or no number at all, they give what Python gives; what Python accepts beyond the
  fragment (fractions, exponents, \<^verbatim>\<open>NaN\<close> and \<^verbatim>\<open>Infinity\<close> in JSON, escapes,
  \<^verbatim>\<open>inf\<close>, \<^verbatim>\<open>nan\<close>, \<^verbatim>\<open>1e3\<close>, underscores between digits, white space beyond
  ASCII) they reject, and Python's limits (the recursion depth, the digits of an integer
  literal) are not modelled. The theorems below do not rest on them: each quantifies over
  the library call, and only the examples use these versions.
\<close>

definition is_digit :: "char \<Rightarrow> bool" where
  "is_digit c = (48 \<le> (of_char c :: nat) \<and> (of_char c :: nat) \<le> 57)"

definition digit_value :: "char \<Rightarrow> nat" where
  "digit_value c = of_char c - 48"

definition nat_of_digits :: "string \<Rightarrow> nat" where
  "nat_of_digits ds = foldl (\<lambda>n c. 10 * n + digit_value c) 0 ds"

definition is_space :: "char \<Rightarrow> bool" where
  \<comment> \<open>Space, tab, line feed, vertical tab, form feed, carriage return.\<close>
  "is_space c = ((of_char c :: nat) = 32 \<or> (9 \<le> (of_char c :: nat) \<and> (of_char c :: nat) \<le> 13))"

definition strip :: "string \<Rightarrow> string" where
  "strip s = rev (dropWhile is_space (rev (dropWhile is_space s)))"

definition split_sign :: "string \<Rightarrow> bool \<times> string" where
  "split_sign s =
     (case s of
        [] \<Rightarrow> (False, [])
      | c # r \<Rightarrow>
          if c = CHR ''-'' then (True, r) else if c = CHR ''+'' then (False, r) else (False, s))"

definition int_of_str :: "string \<Rightarrow> exn + int" where
  "int_of_str s =
     (let (neg, ds) = split_sign (strip s) in
      if ds \<noteq> [] \<and> list_all is_digit ds then
        Inr (if neg then - int (nat_of_digits ds) else int (nat_of_digits ds))
      else Inl (ValueError ''invalid literal for int() with base 10''))"

definition float_of_str :: "string \<Rightarrow> exn + rat" where
  "float_of_str s =
     (let (neg, body) = split_sign (strip s);
          whole = takeWhile is_digit body;
          rest = dropWhile is_digit body;
          frac = (if rest = [] then [] else tl rest);
          well_formed =
            ((rest = [] \<or> hd rest = CHR ''.'') \<and> list_all is_digit frac
             \<and> \<not> (whole = [] \<and> frac = []));
          magnitude =
            (of_nat (nat_of_digits whole) :: rat)
              + of_nat (nat_of_digits frac) / of_nat (10 ^ length frac)
      in if well_formed then Inr (if neg then - magnitude else magnitude)
         else Inl (ValueError ''could not convert string to float''))"

definition ensure_str :: "pyval \<Rightarrow> exn + pyval" where
  \<comment> \<open>\<^verbatim>\<open>six.ensure_str\<close>: a string is returned as it is, a value that is no string is a
      type error.\<close>
  "ensure_str x = (case x of PStr s \<Rightarrow> Inr (PStr s) | _ \<Rightarrow> Inl (TypeError ''not expecting type''))"

subsubsection \<open>Encoding\<close>

fun digits_of :: "nat \<Rightarrow> string" where
  "digits_of n =
     (if n < 10 then [char_of (48 + n)] else digits_of (n div 10) @ [char_of (48 + n mod 10)])"

definition show_int :: "int \<Rightarrow> string" where
  "show_int i = (if i < 0 then CHR ''-'' # digits_of (nat (- i)) else digits_of (nat i))"

definition hex_digit :: "nat \<Rightarrow> char" where
  "hex_digit n = (if n < 10 then char_of (48 + n) else char_of (87 + n))"

definition escape_char :: "char \<Rightarrow> string" where
  \<comment> \<open>\<^verbatim>\<open>ensure_ascii\<close>: every character outside space to tilde is escaped.\<close>
  "escape_char c =
     (let n = (of_char c :: nat) in
      if n = 34 then [CHR 0x5C, CHR 0x22]
      else if n = 92 then [CHR 0x5C, CHR 0x5C]
      else if n = 10 then [CHR 0x5C, CHR ''n'']
      else if n = 13 then [CHR 0x5C, CHR ''r'']
      else if n = 9 then [CHR 0x5C, CHR ''t'']
      else if n = 12 then [CHR 0x5C, CHR ''f'']
      else if n = 8 then [CHR 0x5C, CHR ''b'']
      else if n < 32 \<or> 126 < n then
        [CHR 0x5C, CHR ''u'', CHR ''0'', CHR ''0'', hex_digit (n div 16), hex_digit (n mod 16)]
      else [c])"

definition encode_string :: "string \<Rightarrow> string" where
  "encode_string s = [CHR 0x22] @ concat (map escape_char s) @ [CHR 0x22]"

fun join :: "string \<Rightarrow> string list \<Rightarrow> string" where
  "join sep [] = []"
| "join sep [x] = x"
| "join sep (x # y # ys) = x @ sep @ join sep (y # ys)"

definition dumps_key :: "pyval \<Rightarrow> exn + string" where
  "dumps_key k =
     (case k of
        PStr s \<Rightarrow> Inr (encode_string s)
      | PInt n \<Rightarrow> Inr (encode_string (show_int n))
      | PBool b \<Rightarrow> Inr (encode_string (if b then ''true'' else ''false''))
      | PNone \<Rightarrow> Inr (encode_string ''null'')
      | _ \<Rightarrow> Inl (TypeError ''keys must be str, int, float, bool or None''))"

fun json_dumps :: "pyval \<Rightarrow> exn + string"
  and dumps_elements :: "pyval list \<Rightarrow> exn + string list"
  and dumps_items :: "(pyval \<times> pyval) list \<Rightarrow> exn + string list" where
  "json_dumps PNone = Inr ''null''"
| "json_dumps (PBool b) = Inr (if b then ''true'' else ''false'')"
| "json_dumps (PInt n) = Inr (show_int n)"
| "json_dumps (PStr s) = Inr (encode_string s)"
| "json_dumps (PList xs) =
     (case dumps_elements xs of
        Inl e \<Rightarrow> Inl e
      | Inr ss \<Rightarrow> Inr (''['' @ join '', '' ss @ '']''))"
| "json_dumps (PDict kvs) =
     (case dumps_items kvs of
        Inl e \<Rightarrow> Inl e
      | Inr ss \<Rightarrow> Inr (''{'' @ join '', '' ss @ ''}''))"
| "json_dumps (PObj _) = Inl (TypeError ''Object is not JSON serializable'')"
| "dumps_elements [] = Inr []"
| "dumps_elements (x # xs) =
     (case json_dumps x of
        Inl e \<Rightarrow> Inl e
      | Inr s \<Rightarrow> (case dumps_elements xs of Inl e \<Rightarrow> Inl e | Inr ss \<Rightarrow> Inr (s # ss)))"
| "dumps_items [] = Inr []"
| "dumps_items ((k, v) # kvs) =
     (case dumps_key k of
        Inl e \<Rightarrow> Inl e
      | Inr ks \<Rightarrow>
          (case json_dumps v of
             Inl e \<Rightarrow> Inl e
           | Inr vs \<Rightarrow>
               (case dumps_items kvs of
                  Inl e \<Rightarrow> Inl e
                | Inr ss \<Rightarrow> Inr ((ks @ '': '' @ vs) # ss))))"

subsubsection \<open>Decoding\<close>

definition is_json_space :: "char \<Rightarrow> bool" where
  "is_json_space c = (c = CHR '' '' \<or> c = CHR 0x09 \<or> c = CHR 0x0A \<or> c = CHR 0x0D)"

definition skip_ws :: "string \<Rightarrow> string" where
  "skip_ws s = dropWhile is_json_space s"

definition scan_int :: "string \<Rightarrow> (int \<times> string) option" where
  \<comment> \<open>An integer literal: an optional minus, then 0 or a digit string with no leading 0,
      with no fraction or exponent after it.\<close>
  "scan_int cs =
     (let (neg, body) = (case cs of [] \<Rightarrow> (False, []) | c # r \<Rightarrow> if c = CHR ''-'' then (True, r) else (False, cs));
          ds = takeWhile is_digit body;
          rest = dropWhile is_digit body
      in if ds = [] \<or> (1 < length ds \<and> hd ds = CHR ''0'')
            \<or> (rest \<noteq> [] \<and> hd rest \<in> set ''.eE'') then None
         else Some (if neg then - int (nat_of_digits ds) else int (nat_of_digits ds), rest))"

definition scan_string :: "string \<Rightarrow> (string \<times> string) option" where
  \<comment> \<open>The characters after an opening quote, up to the closing one: no backslash, no
      control character.\<close>
  "scan_string cs =
     (let body = takeWhile (\<lambda>c. c \<noteq> CHR 0x22) cs;
          rest = dropWhile (\<lambda>c. c \<noteq> CHR 0x22) cs
      in if rest = [] \<or> list_ex (\<lambda>c. c = CHR 0x5C \<or> (of_char c :: nat) < 32) body then None
         else Some (body, tl rest))"

fun parse_value :: "nat \<Rightarrow> string \<Rightarrow> (pyval \<times> string) option"
  and parse_elements :: "nat \<Rightarrow> pyval list \<Rightarrow> string \<Rightarrow> (pyval \<times> string) option"
  and parse_members :: "nat \<Rightarrow> (pyval \<times> pyval) list \<Rightarrow> string \<Rightarrow> (pyval \<times> string) option" where
  "parse_value 0 cs = None"
| "parse_value (Suc k) cs =
     (case cs of
        [] \<Rightarrow> None
      | c # r \<Rightarrow>
          if c = CHR 0x22 then
            (case scan_string r of None \<Rightarrow> None | Some (s, r') \<Rightarrow> Some (PStr s, r'))
          else if c = CHR ''['' then
            (case skip_ws r of
               [] \<Rightarrow> None
             | c' # r' \<Rightarrow>
                 if c' = CHR '']'' then Some (PList [], r') else parse_elements k [] (c' # r'))
          else if c = CHR ''{'' then
            (case skip_ws r of
               [] \<Rightarrow> None
             | c' # r' \<Rightarrow>
                 if c' = CHR ''}'' then Some (PDict [], r') else parse_members k [] (c' # r'))
          else if take 4 cs = ''null'' then Some (PNone, drop 4 cs)
          else if take 4 cs = ''true'' then Some (PBool True, drop 4 cs)
          else if take 5 cs = ''false'' then Some (PBool False, drop 5 cs)
          else (case scan_int cs of None \<Rightarrow> None | Some (n, r') \<Rightarrow> Some (PInt n, r')))"
| "parse_elements 0 acc cs = None"
| "parse_elements (Suc k) acc cs =
     (case parse_value k cs of
        None \<Rightarrow> None
      | Some (v, r) \<Rightarrow>
          (case skip_ws r of
             [] \<Rightarrow> None
           | c # r' \<Rightarrow>
               if c = CHR '']'' then Some (PList (acc @ [v]), r')
               else if c = CHR '','' then parse_elements k (acc @ [v]) (skip_ws r')
               else None))"
| "parse_members 0 acc cs = None"
| "parse_members (Suc k) acc cs =
     (case cs of
        [] \<Rightarrow> None
      | q # r \<Rightarrow>
          if q \<noteq> CHR 0x22 then None
          else
            (case scan_string r of
               None \<Rightarrow> None
             | Some (key, r1) \<Rightarrow>
                 (case skip_ws r1 of
                    [] \<Rightarrow> None
                  | c # r2 \<Rightarrow>
                      if c \<noteq> CHR '':'' then None
                      else
                        (case parse_value k (skip_ws r2) of
                           None \<Rightarrow> None
                         | Some (v, r3) \<Rightarrow>
                             (case skip_ws r3 of
                                [] \<Rightarrow> None
                              | c' # r4 \<Rightarrow>
                                  if c' = CHR ''}'' then
                                    Some (PDict (AList.update (PStr key) v acc), r4)
                                  else if c' = CHR '','' then
                                    parse_members k (AList.update (PStr key) v acc) (skip_ws r4)
                                  else None)))))"

definition json_loads :: "string \<Rightarrow> exn + pyval" where
  \<comment> \<open>The fuel bounds the number of nested calls; it is more than twice the text's
      length.\<close>
  "json_loads s =
     (case parse_value (2 * length s + 2) (skip_ws s) of
        None \<Rightarrow> Inl (ValueError ''JSONDecodeError'')
      | Some (v, r) \<Rightarrow> if skip_ws r = [] then Inr v else Inl (ValueError ''JSONDecodeError''))"

section \<open>Properties\<close>

subsection \<open>States, operations and predicates used in the statements\<close>

definition fresh :: bridge where
  "fresh = \<lparr>handlers = [], outbox = [], published = [], logged = [], thread_errors = []\<rparr>"

definition connected :: bridge where
  \<comment> \<open>A bridge constructed with nothing set in the environment.\<close>
  "connected = snd (init (GDNBridge_class Map.empty) fresh)"

definition misconfigured :: config where
  \<comment> \<open>The class defined with two timeouts that are no numbers.\<close>
  "misconfigured =
     GDNBridge_class
       [''SHOTGUN_GDN_HEARTBEAT_TIMEOUT'' \<mapsto> ''abc'',
        ''SHOTGUN_GDN_RESPONSE_TIMEOUT'' \<mapsto> ''five minutes'']"

definition takes :: "rat \<Rightarrow> exn + 'a \<Rightarrow> bridge \<Rightarrow> 'a run" where
  \<comment> \<open>An operation that takes \<open>t\<close> seconds, ends with \<open>r\<close> and leaves the state as it
      was.\<close>
  "takes t r st = \<lparr>elapsed = t, outcome = r, after = st\<rparr>"

definition answers :: "rat \<Rightarrow> exn + 'a \<Rightarrow> nat \<Rightarrow> bridge \<Rightarrow> 'a run" where
  \<comment> \<open>A wait for the response to call \<open>uid\<close> that takes \<open>t\<close> seconds and ends with \<open>r\<close>.\<close>
  "answers t r uid = takes t r"

definition no_document :: "bridge \<Rightarrow> pyval result" where
  "no_document st = (Inl (RuntimeError ''No active document''), st)"

definition none_document :: "bridge \<Rightarrow> pyval result" where
  "none_document st = (Inr PNone, st)"

definition open_document :: "bridge \<Rightarrow> pyval result" where
  "open_document st = (Inr (PObj ''Document''), st)"

definition unsaved_fullName :: "pyval \<Rightarrow> bridge \<Rightarrow> pyval result" where
  "unsaved_fullName doc st = (Inl (RuntimeError ''The document has not been saved''), st)"

definition saved_fullName :: "pyval \<Rightarrow> bridge \<Rightarrow> pyval result" where
  "saved_fullName doc st = (Inr (PObj ''File''), st)"

definition unsaved_fsName :: "pyval \<Rightarrow> bridge \<Rightarrow> pyval result" where
  "unsaved_fsName full st = (Inl (RuntimeError ''The file has no path''), st)"

definition saved_fsName :: "pyval \<Rightarrow> bridge \<Rightarrow> pyval result" where
  "saved_fsName full st = (Inr (PStr ''/projects/shot010.psd''), st)"


definition dict_keys :: "pyval \<Rightarrow> pyval list" where
  "dict_keys x = (case x of PDict kvs \<Rightarrow> map fst kvs | _ \<Rightarrow> [])"

definition wired :: "bridge \<Rightarrow> bool" where
  \<comment> \<open>The six names are registered with the handlers \<^verbatim>\<open>__init__\<close> gives them.\<close>
  "wired st =
     (map_of (handlers st) ''logging'' = Some forward_logging_h
      \<and> map_of (handlers st) ''command'' = Some forward_command_h
      \<and> map_of (handlers st) ''run_tests'' = Some forward_run_tests_h
      \<and> map_of (handlers st) ''state_requested'' = Some forward_state_request_h
      \<and> map_of (handlers st) ''active_document_changed''
          = Some forward_active_document_changed_h
      \<and> map_of (handlers st) ''gdn_hwnd'' = Some forward_gdn_hwnd_h)"

definition publishes :: "event \<Rightarrow> bridge \<Rightarrow> unit result \<Rightarrow> bool" where
  \<comment> \<open>\<open>r\<close> is a normal return from \<open>st\<close> after exactly one event, \<open>ev\<close>, was published.\<close>
  "publishes ev st r = (fst r = Inr () \<and> published (snd r) = published st @ [ev])"

definition raises_unpublished ::
  "exn \<Rightarrow> bridge \<Rightarrow> (logger \<times> level \<times> string \<times> logarg) list \<Rightarrow> unit result \<Rightarrow> bool" where
  \<comment> \<open>\<open>r\<close> raises \<open>e\<close> from \<open>st\<close> with no event published, no message sent, and \<open>lines\<close>
      the only log records written.\<close>
  "raises_unpublished e st lines r =
     (fst r = Inl e \<and> published (snd r) = published st \<and> outbox (snd r) = outbox st
      \<and> logged (snd r) = logged st @ lines)"

definition TIMEOUT_MAX :: rat where
  \<comment> \<open>\<^verbatim>\<open>threading.TIMEOUT_MAX\<close> of a 64-bit POSIX build, taken as the largest timeout
      of the examples' platform; no example has an interval between it and the next whole
      second.\<close>
  "TIMEOUT_MAX = 9223372036"

definition refused :: "bridge \<Rightarrow> bridge" where
  \<comment> \<open>The state once a timer's thread has ended on an interval that is too large.\<close>
  "refused st = thread_dies (OverflowError ''timeout value is too large'') st"




subsection \<open>Evaluations of the reference library\<close>

lemma loads_42: "json_loads ''42'' = Inr (PInt 42)"
  by code_simp

lemma loads_abc: "json_loads ''abc'' = Inl (ValueError ''JSONDecodeError'')"
  by code_simp

lemma loads_quoted_abc: "json_loads ''\"abc\"'' = Inr (PStr ''abc'')"
  by code_simp

lemma loads_disk_full:
  "json_loads ''{\"level\":\"warning\",\"message\":\"disk full\"}'' =
     Inr (PDict [(PStr ''level'', PStr ''warning''), (PStr ''message'', PStr ''disk full'')])"
  by code_simp

lemma int_of_str_abc:
  "int_of_str ''abc'' = Inl (ValueError ''invalid literal for int() with base 10'')"
  by code_simp

lemma float_of_str_abc:
  "float_of_str ''abc'' = Inl (ValueError ''could not convert string to float'')"
  by code_simp

lemma float_of_str_five_minutes:
  "float_of_str ''five minutes'' = Inl (ValueError ''could not convert string to float'')"
  by code_simp



lemma dumps_saved:
  "json_dumps (log_data (PStr ''info'') (PStr ''saved'')) =
     Inr ''{\"level\": \"info\", \"msg\": \"saved\"}''"
  by code_simp

lemma encode_level: "encode_string ''level'' = ''\"level\"''"
  by code_simp

lemma encode_msg: "encode_string ''msg'' = ''\"msg\"''"
  by code_simp

subsection \<open>Senders\<close>





text \<open>
  C10. For every level and message, \<open>log_message\<close> encodes the dictionary whose keys are
  exactly \<open>level\<close> and \<open>msg\<close>, holding the level and the message, and sends the encoding as
  the payload of \<open>log_message\<close>. The dictionary has no key \<open>message\<close>, the key the inbound
  \<open>logging\<close> handler reads: given this payload, that handler publishes the level with no
  message. With the reference encoder and strings, the payload is the text
  \<^verbatim>\<open>{"level": ..., "msg": ...}\<close>.
\<close>

theorem log_message_payload_keys:
  "log_message dumps lvl msg st =
     (case dumps (log_data lvl msg) of
        Inl e \<Rightarrow> (Inl e, st)
      | Inr s \<Rightarrow> (Inr (), io_emit ''log_message'' (Some s) st))
   \<and> dict_keys (log_data lvl msg) = [PStr ''level'', PStr ''msg'']
   \<and> py_get (log_data lvl msg) ''level'' = Inr lvl
   \<and> py_get (log_data lvl msg) ''msg'' = Inr msg
   \<and> py_get (log_data lvl msg) ''message'' = Inr PNone
   \<and> json_dumps (log_data (PStr l) (PStr m)) =
       Inr (''{\"level\": '' @ encode_string l @ '', \"msg\": '' @ encode_string m @ ''}'')
   \<and> published (snd (forward_logging (\<lambda>text. Inr (log_data lvl msg)) response st)) =
       published st @ [logging_received lvl PNone]"
  by (simp add: log_message_def log_data_def dict_keys_def py_get_def dict_get_def dumps_key_def
      forward_logging_def signal_emit_def log_debug_def encode_level encode_msg)

theorem log_message_payload_keys_witness:
  "log_message json_dumps (PStr ''info'') (PStr ''saved'') fresh =
     (Inr (),
      fresh\<lparr>outbox := [(''log_message'', Some ''{\"level\": \"info\", \"msg\": \"saved\"}'')]\<rparr>)"
  using log_message_payload_keys
      [where dumps = json_dumps and lvl = "PStr ''info''" and msg = "PStr ''saved''"
        and st = fresh]
  by (simp add: dumps_saved io_emit_def fresh_def del: json_dumps.simps)

subsection \<open>Construction and inbound messages\<close>

lemma init_returns: "fst (init cls base) = Inr ()"
  by (simp add: init_def Let_def)

lemma handlers_init:
  "handlers (snd (init cls base)) = handlers base @
     [(''logging'', forward_logging_h), (''command'', forward_command_h),
      (''run_tests'', forward_run_tests_h), (''state_requested'', forward_state_request_h),
      (''active_document_changed'', forward_active_document_changed_h),
      (''gdn_hwnd'', forward_gdn_hwnd_h)]"
  by (simp add: init_def Let_def io_on_def log_debug_def)

lemma init_wired: "handlers base = [] \<Longrightarrow> wired (snd (init cls base))"
  by (simp add: wired_def handlers_init)

lemma wired_connected: "wired connected"
  by (simp add: connected_def init_wired fresh_def)

lemma published_connected: "published connected = []"
  by (simp add: connected_def init_def Let_def io_on_def log_debug_def fresh_def)

lemma thread_errors_connected: "thread_errors connected = []"
  by (simp add: connected_def init_def Let_def io_on_def log_debug_def fresh_def)

lemma deliver_wired:
  assumes "wired st"
  shows "deliver loads str_to_int ''logging'' payload st = forward_logging loads payload st"
    and "deliver loads str_to_int ''command'' payload st
          = forward_command loads str_to_int payload st"
    and "deliver loads str_to_int ''run_tests'' payload st = forward_run_tests payload st"
    and "deliver loads str_to_int ''state_requested'' payload st
          = forward_state_request payload st"
    and "deliver loads str_to_int ''active_document_changed'' payload st
          = forward_active_document_changed loads payload st"
    and "deliver loads str_to_int ''gdn_hwnd'' payload st
          = forward_gdn_hwnd loads str_to_int payload st"
  using assms by (simp_all add: wired_def deliver_def)

text \<open>
  C5. A well-formed inbound message makes its handler publish exactly one event with the
  decoded fields and return: a \<open>command\<close> payload that decodes to an integer gives one
  \<open>command_received\<close> with that integer, a \<open>logging\<close> payload that decodes to an object gives
  one \<open>logging_received\<close> with the object's \<open>level\<close> and \<open>message\<close> values (\<open>None\<close> for a key
  the object lacks). Likewise \<open>gdn_hwnd\<close> with an integer, \<open>active_document_changed\<close> with
  an object, and \<open>run_tests\<close> and \<open>state_requested\<close> with any payload. On a constructed
  bridge the six names are routed to these handlers.
\<close>

theorem well_formed_inbound_publishes_once:
  "(loads payload = Inr (PInt n) \<longrightarrow>
      publishes (command_received n) st (forward_command loads str_to_int payload st)
      \<and> publishes (gdn_hwnd n) st (forward_gdn_hwnd loads str_to_int payload st))
   \<and> (loads payload = Inr (PDict kvs) \<longrightarrow>
      publishes (logging_received (dict_get kvs ''level'') (dict_get kvs ''message'')) st
        (forward_logging loads payload st)
      \<and> publishes (active_document_changed (dict_get kvs ''active_document_path'')) st
        (forward_active_document_changed loads payload st))
   \<and> (map_of kvs (PStr key) = Some v \<longrightarrow> dict_get kvs key = v)
   \<and> publishes run_tests_request_received st (forward_run_tests payload st)
   \<and> publishes state_requested st (forward_state_request payload st)
   \<and> (wired st \<longrightarrow>
        deliver loads str_to_int ''command'' payload st
          = forward_command loads str_to_int payload st
        \<and> deliver loads str_to_int ''logging'' payload st = forward_logging loads payload st)
   \<and> (handlers base = [] \<longrightarrow> wired (snd (init cls base)))"
proof -
  have 1: "loads payload = Inr (PInt n) \<longrightarrow>
      publishes (command_received n) st (forward_command loads str_to_int payload st)
      \<and> publishes (gdn_hwnd n) st (forward_gdn_hwnd loads str_to_int payload st)"
    by (simp add: publishes_def forward_command_def forward_gdn_hwnd_def py_int_def
        signal_emit_def log_debug_def)
  have 2: "loads payload = Inr (PDict kvs) \<longrightarrow>
      publishes (logging_received (dict_get kvs ''level'') (dict_get kvs ''message'')) st
        (forward_logging loads payload st)
      \<and> publishes (active_document_changed (dict_get kvs ''active_document_path'')) st
        (forward_active_document_changed loads payload st)"
    by (simp add: publishes_def forward_logging_def forward_active_document_changed_def
        py_get_def signal_emit_def log_debug_def)
  have 3: "map_of kvs (PStr key) = Some v \<longrightarrow> dict_get kvs key = v"
    by (simp add: dict_get_def)
  have 4: "publishes run_tests_request_received st (forward_run_tests payload st)"
    by (simp add: publishes_def forward_run_tests_def signal_emit_def log_debug_def)
  have 5: "publishes state_requested st (forward_state_request payload st)"
    by (simp add: publishes_def forward_state_request_def signal_emit_def log_debug_def)
  have 6: "wired st \<longrightarrow>
        deliver loads str_to_int ''command'' payload st
          = forward_command loads str_to_int payload st
        \<and> deliver loads str_to_int ''logging'' payload st = forward_logging loads payload st"
    by (simp add: deliver_wired)
  have 7: "handlers base = [] \<longrightarrow> wired (snd (init cls base))"
    by (simp add: init_wired)
  from 1 2 3 4 5 6 7 show ?thesis by blast
qed

text \<open>
  The payloads \<^verbatim>\<open>42\<close> on \<open>command\<close> and
  \<^verbatim>\<open>{"level":"warning","message":"disk full"}\<close> on \<open>logging\<close>, delivered to a constructed
  bridge.
\<close>

theorem well_formed_inbound_publishes_once_witness:
  "json_loads ''42'' = Inr (PInt 42)
   \<and> handlers fresh = []
   \<and> wired connected
   \<and> fst (deliver json_loads int_of_str ''command'' ''42'' connected) = Inr ()
   \<and> published (snd (deliver json_loads int_of_str ''command'' ''42'' connected))
       = [command_received 42]
   \<and> fst (deliver json_loads int_of_str ''logging''
        ''{\"level\":\"warning\",\"message\":\"disk full\"}'' connected) = Inr ()
   \<and> published (snd (deliver json_loads int_of_str ''logging''
        ''{\"level\":\"warning\",\"message\":\"disk full\"}'' connected))
       = [logging_received (PStr ''warning'') (PStr ''disk full'')]"
proof -
  note command =
    well_formed_inbound_publishes_once
      [where loads = json_loads and payload = "''42''" and n = 42 and str_to_int = int_of_str
        and st = connected and base = fresh and cls = "GDNBridge_class Map.empty"]
  note logging =
    well_formed_inbound_publishes_once
      [where loads = json_loads
        and payload = "''{\"level\":\"warning\",\"message\":\"disk full\"}''"
        and kvs = "[(PStr ''level'', PStr ''warning''), (PStr ''message'', PStr ''disk full'')]"
        and key = "''message''" and v = "PStr ''disk full''"
        and str_to_int = int_of_str and st = connected and base = fresh]
  note level =
    well_formed_inbound_publishes_once
      [where kvs = "[(PStr ''level'', PStr ''warning''), (PStr ''message'', PStr ''disk full'')]"
        and key = "''level''" and v = "PStr ''warning''"]
  have empty: "handlers fresh = []"
    by (simp add: fresh_def)
  from command empty have w: "wired connected"
    by (simp add: connected_def)
  from level have l:
    "dict_get [(PStr ''level'', PStr ''warning''), (PStr ''message'', PStr ''disk full'')]
       ''level'' = PStr ''warning''"
    by simp
  from logging have m:
    "dict_get [(PStr ''level'', PStr ''warning''), (PStr ''message'', PStr ''disk full'')]
       ''message'' = PStr ''disk full''"
    by simp
  from command logging w l m empty show ?thesis
    by (simp add: loads_42 loads_disk_full published_connected publishes_def)
qed

text \<open>
  C2, as the code has it. An inbound message whose payload fails to decode makes its handler
  publish no event, send nothing and raise the failure to its caller, the transport. This
  holds of each of the four handlers that decode their payload: \<open>command\<close> and \<open>gdn_hwnd\<close>
  when the JSON decoder fails or \<^verbatim>\<open>int\<close> fails on the decoded value, \<open>logging\<close> and
  \<open>active_document_changed\<close> when the JSON decoder fails or the decoded value has no
  \<^verbatim>\<open>get\<close>. The handler catches nothing and logs nothing about the failure: the only log
  record is the routine debug line written before the failing step. The two handlers left,
  \<open>run_tests\<close> and \<open>state_requested\<close>, never read their payload and return whatever it is.
\<close>

theorem undecodable_payload_raises_to_transport:
  "(loads response = Inl e \<longrightarrow>
      raises_unpublished e st [(self_logger, DEBUG, ''Emitting command_received signal.'', NoArg)]
        (forward_command loads str_to_int response st)
      \<and> raises_unpublished e st [(self_logger, DEBUG, ''Emitting gdn_hwnd_changed signal.'', NoArg)]
        (forward_gdn_hwnd loads str_to_int response st)
      \<and> raises_unpublished e st [] (forward_logging loads response st)
      \<and> raises_unpublished e st
        [(self_logger, DEBUG, ''Emitting active_document_changed signal.'', NoArg)]
        (forward_active_document_changed loads response st))
   \<and> (loads response = Inr v \<and> py_int str_to_int v = Inl e \<longrightarrow>
      raises_unpublished e st [(self_logger, DEBUG, ''Emitting command_received signal.'', NoArg)]
        (forward_command loads str_to_int response st)
      \<and> raises_unpublished e st [(self_logger, DEBUG, ''Emitting gdn_hwnd_changed signal.'', NoArg)]
        (forward_gdn_hwnd loads str_to_int response st))
   \<and> (loads response = Inr v \<and> py_get v ''level'' = Inl e \<longrightarrow>
      raises_unpublished e st
        [(self_logger, DEBUG, ''Got logging command - forwarding to Qt %s'', ValArg v)]
        (forward_logging loads response st))
   \<and> (loads response = Inr v \<and> py_get v ''active_document_path'' = Inl e \<longrightarrow>
      raises_unpublished e st
        [(self_logger, DEBUG, ''Emitting active_document_changed signal.'', NoArg)]
        (forward_active_document_changed loads response st))
   \<and> fst (forward_run_tests response st) = Inr ()
   \<and> fst (forward_state_request response st) = Inr ()"
proof -
  have 1: "loads response = Inl e \<longrightarrow>
      raises_unpublished e st [(self_logger, DEBUG, ''Emitting command_received signal.'', NoArg)]
        (forward_command loads str_to_int response st)
      \<and> raises_unpublished e st [(self_logger, DEBUG, ''Emitting gdn_hwnd_changed signal.'', NoArg)]
        (forward_gdn_hwnd loads str_to_int response st)
      \<and> raises_unpublished e st [] (forward_logging loads response st)
      \<and> raises_unpublished e st
        [(self_logger, DEBUG, ''Emitting active_document_changed signal.'', NoArg)]
        (forward_active_document_changed loads response st)"
    by (simp add: raises_unpublished_def forward_command_def forward_gdn_hwnd_def
        forward_logging_def forward_active_document_changed_def log_debug_def)
  have 2: "loads response = Inr v \<and> py_int str_to_int v = Inl e \<longrightarrow>
      raises_unpublished e st [(self_logger, DEBUG, ''Emitting command_received signal.'', NoArg)]
        (forward_command loads str_to_int response st)
      \<and> raises_unpublished e st [(self_logger, DEBUG, ''Emitting gdn_hwnd_changed signal.'', NoArg)]
        (forward_gdn_hwnd loads str_to_int response st)"
    by (simp add: raises_unpublished_def forward_command_def forward_gdn_hwnd_def log_debug_def)
  have 3: "loads response = Inr v \<and> py_get v ''level'' = Inl e \<longrightarrow>
      raises_unpublished e st
        [(self_logger, DEBUG, ''Got logging command - forwarding to Qt %s'', ValArg v)]
        (forward_logging loads response st)"
    by (simp add: raises_unpublished_def forward_logging_def log_debug_def)
  have 4: "loads response = Inr v \<and> py_get v ''active_document_path'' = Inl e \<longrightarrow>
      raises_unpublished e st
        [(self_logger, DEBUG, ''Emitting active_document_changed signal.'', NoArg)]
        (forward_active_document_changed loads response st)"
    by (simp add: raises_unpublished_def forward_active_document_changed_def log_debug_def)
  have 5: "fst (forward_run_tests response st) = Inr ()"
    by (simp add: forward_run_tests_def)
  have 6: "fst (forward_state_request response st) = Inr ()"
    by (simp add: forward_state_request_def)
  from 1 2 3 4 5 6 show ?thesis by blast
qed

text \<open>
  The payloads \<^verbatim>\<open>abc\<close> (no JSON) on the four channels, \<^verbatim>\<open>"abc"\<close> (a JSON string that
  is no number) on \<open>command\<close> and \<open>gdn_hwnd\<close>, and \<^verbatim>\<open>42\<close> (no object) on \<open>logging\<close> and
  \<open>active_document_changed\<close>.
\<close>

theorem undecodable_payload_raises_to_transport_witness:
  "json_loads ''abc'' = Inl (ValueError ''JSONDecodeError'')
   \<and> raises_unpublished (ValueError ''JSONDecodeError'') connected
     [(self_logger, DEBUG, ''Emitting command_received signal.'', NoArg)]
     (forward_command json_loads int_of_str ''abc'' connected)
   \<and> raises_unpublished (ValueError ''JSONDecodeError'') connected
     [(self_logger, DEBUG, ''Emitting gdn_hwnd_changed signal.'', NoArg)]
     (forward_gdn_hwnd json_loads int_of_str ''abc'' connected)
   \<and> raises_unpublished (ValueError ''JSONDecodeError'') connected []
     (forward_logging json_loads ''abc'' connected)
   \<and> raises_unpublished (ValueError ''JSONDecodeError'') connected
     [(self_logger, DEBUG, ''Emitting active_document_changed signal.'', NoArg)]
     (forward_active_document_changed json_loads ''abc'' connected)
   \<and> raises_unpublished (ValueError ''invalid literal for int() with base 10'') connected
     [(self_logger, DEBUG, ''Emitting command_received signal.'', NoArg)]
     (forward_command json_loads int_of_str ''\"abc\"'' connected)
   \<and> raises_unpublished (ValueError ''invalid literal for int() with base 10'') connected
     [(self_logger, DEBUG, ''Emitting gdn_hwnd_changed signal.'', NoArg)]
     (forward_gdn_hwnd json_loads int_of_str ''\"abc\"'' connected)
   \<and> raises_unpublished (AttributeError ''get'') connected
     [(self_logger, DEBUG, ''Got logging command - forwarding to Qt %s'', ValArg (PInt 42))]
     (forward_logging json_loads ''42'' connected)
   \<and> raises_unpublished (AttributeError ''get'') connected
     [(self_logger, DEBUG, ''Emitting active_document_changed signal.'', NoArg)]
     (forward_active_document_changed json_loads ''42'' connected)"
  using undecodable_payload_raises_to_transport
      [where loads = json_loads and response = "''abc''" and str_to_int = int_of_str
        and e = "ValueError ''JSONDecodeError''" and st = connected]
    undecodable_payload_raises_to_transport
      [where loads = json_loads and response = "''\"abc\"''" and str_to_int = int_of_str
        and e = "ValueError ''invalid literal for int() with base 10''" and st = connected
        and v = "PStr ''abc''"]
    undecodable_payload_raises_to_transport
      [where loads = json_loads and response = "''42''" and str_to_int = int_of_str
        and e = "AttributeError ''get''" and st = connected and v = "PInt 42"]
  by (simp add: loads_abc loads_quoted_abc loads_42 int_of_str_abc py_int_def py_get_def)

text \<open>
  C2 as stated fails: on the \<open>command\<close> channel the payload \<^verbatim>\<open>abc\<close> makes the handler
  raise the decoder's error, and the log holds the routine debug line only.
\<close>

theorem forward_command_malformed_counterexample:
  "forward_command json_loads int_of_str ''abc'' connected =
     (Inl (ValueError ''JSONDecodeError''),
      log_debug self_logger ''Emitting command_received signal.'' NoArg connected)"
  by (simp add: forward_command_def loads_abc)

subsection \<open>The timeout decorator and the timed methods\<close>

lemma timeout_eq:
  "timeout str_to_float timeout_max timer_first seconds msg func st =
     (case py_float str_to_float seconds of
        Inl e \<Rightarrow> \<lparr>returned = Inl e, timer_left = None, invoked = False, final = st\<rparr>
      | Inr d \<Rightarrow>
          if timeout_max < d then
            \<lparr>returned = outcome (func (refused st)),
             timer_left = Some \<lparr>interval = d, phase = Crashed, finished = True\<rparr>,
             invoked = True,
             final = after (func (refused st))\<rparr>
          else
            \<lparr>returned = outcome (func st),
             timer_left =
               Some \<lparr>interval = d,
                     phase = (if d < elapsed (func st) \<or> (d = elapsed (func st) \<and> timer_first)
                              then Fired else Cancelled),
                     finished = True\<rparr>,
             invoked = True,
             final =
               (if d < elapsed (func st) \<or> (d = elapsed (func st) \<and> timer_first)
                then thread_dies (RPCTimeoutError msg) (after (func st))
                else after (func st))\<rparr>)"
  by (simp add: timeout_def Let_def timer_run_def Timer_def start_def cancel_def
      handle_timeout_def refused_def split: sum.split)

lemma timeout_unconverted:
  "py_float str_to_float seconds = Inl e \<Longrightarrow>
   timeout str_to_float timeout_max timer_first seconds msg func st =
     \<lparr>returned = Inl e, timer_left = None, invoked = False, final = st\<rparr>"
  by (simp add: timeout_eq)

lemma misconfigured_eq:
  "misconfigured =
     \<lparr>SHOTGUN_GDN_RESPONSE_TIMEOUT = Text ''five minutes'',
      SHOTGUN_GDN_HEARTBEAT_TIMEOUT = Text ''abc''\<rparr>"
  by (simp add: misconfigured_def GDNBridge_class_def environ_get_def)

text \<open>
  C3, as the code has it. The two timeouts are read from the environment once, when the class
  is defined: 300 for the response timeout and 0.5 for the heartbeat timeout when the
  variable is not set, and the variable's string, kept as it is, when it is set. Construction
  does not check them and never fails on their account. A value that \<^verbatim>\<open>float\<close> rejects
  makes every call of the method it times (\<open>ping\<close> for the heartbeat timeout,
  \<open>_wait_for_response\<close> for the response timeout) raise the conversion's error, before a
  timer is made or the method's body is run; no default takes its place.
\<close>

theorem timeouts_read_at_class_definition_checked_at_call:
  "SHOTGUN_GDN_RESPONSE_TIMEOUT (GDNBridge_class environ) =
     (case environ ''SHOTGUN_GDN_RESPONSE_TIMEOUT'' of
        None \<Rightarrow> Number 300 | Some s \<Rightarrow> Text s)
   \<and> SHOTGUN_GDN_HEARTBEAT_TIMEOUT (GDNBridge_class environ) =
     (case environ ''SHOTGUN_GDN_HEARTBEAT_TIMEOUT'' of
        None \<Rightarrow> Number (1 / 2) | Some s \<Rightarrow> Text s)
   \<and> fst (init cls base) = Inr ()
   \<and> (py_float str_to_float (SHOTGUN_GDN_HEARTBEAT_TIMEOUT cls) = Inl e \<longrightarrow>
        ping str_to_float timeout_max timer_first cls super_ping st =
          \<lparr>returned = Inl e, timer_left = None, invoked = False, final = st\<rparr>)
   \<and> (py_float str_to_float (SHOTGUN_GDN_RESPONSE_TIMEOUT cls) = Inl e \<longrightarrow>
        wait_for_response str_to_float timeout_max timer_first cls super_wait uid st =
          \<lparr>returned = Inl e, timer_left = None, invoked = False, final = st\<rparr>)"
  by (simp add: GDNBridge_class_def environ_get_def init_returns ping_def wait_for_response_def
      timeout_unconverted)

text \<open>
  The defaults, and the two timeouts set to \<^verbatim>\<open>abc\<close> and \<^verbatim>\<open>five minutes\<close>:
  construction returns, and \<open>ping\<close> and \<open>_wait_for_response\<close> raise \<^verbatim>\<open>ValueError\<close>
  without calling the base class's method.
\<close>

theorem timeouts_read_at_class_definition_checked_at_call_witness:
  "SHOTGUN_GDN_RESPONSE_TIMEOUT (GDNBridge_class Map.empty) = Number 300
   \<and> SHOTGUN_GDN_HEARTBEAT_TIMEOUT (GDNBridge_class Map.empty) = Number (1 / 2)
   \<and> py_float float_of_str (SHOTGUN_GDN_HEARTBEAT_TIMEOUT misconfigured)
        = Inl (ValueError ''could not convert string to float'')
   \<and> py_float float_of_str (SHOTGUN_GDN_RESPONSE_TIMEOUT misconfigured)
        = Inl (ValueError ''could not convert string to float'')
   \<and> fst (init misconfigured fresh) = Inr ()
   \<and> ping float_of_str TIMEOUT_MAX False misconfigured (takes 0 (Inr ())) connected =
        \<lparr>returned = Inl (ValueError ''could not convert string to float''), timer_left = None,
         invoked = False, final = connected\<rparr>
   \<and> wait_for_response float_of_str TIMEOUT_MAX False misconfigured (answers 0 (Inr PNone)) 7
        connected =
        \<lparr>returned = Inl (ValueError ''could not convert string to float''), timer_left = None,
         invoked = False, final = connected\<rparr>"
  using timeouts_read_at_class_definition_checked_at_call
      [where environ = Map.empty and cls = misconfigured and base = fresh
        and str_to_float = float_of_str
        and e = "ValueError ''could not convert string to float''"
        and timeout_max = TIMEOUT_MAX
        and timer_first = False and super_ping = "takes 0 (Inr ())" and st = connected
        and super_wait = "answers 0 (Inr PNone)" and uid = 7]
  by (simp add: misconfigured_eq py_float_def float_of_str_abc float_of_str_five_minutes)

text \<open>
  C3 as stated fails: with the heartbeat timeout set to \<^verbatim>\<open>abc\<close> in the environment the
  bridge is constructed without a failure, and the failure comes later, in the operation
  \<open>ping\<close>.
\<close>

theorem invalid_timeout_fails_at_call_counterexample:
  "fst (init misconfigured fresh) = Inr ()
   \<and> returned (ping float_of_str TIMEOUT_MAX False misconfigured (takes 0 (Inr ()))
        (snd (init misconfigured fresh)))
       = Inl (ValueError ''could not convert string to float'')"
  by (simp add: init_returns ping_def timeout_unconverted py_float_def misconfigured_eq
      float_of_str_abc)

text \<open>
  C4. For a duration \<open>d > 0\<close> and a decorated callable that ends, by returning or by
  raising, before \<open>d\<close> seconds have passed, the wrapper ends as the callable did (its value
  returned, its exception raised) and has cancelled its timer. When the platform takes the
  interval, the timer was cancelled while it waited and the state is the one the callable
  left: the timer's thread raised nothing. When the interval is above the platform's largest
  timeout, the timer's thread ended at once with \<^verbatim>\<open>OverflowError\<close>, before the callable
  ran, and the wrapper still ends as the callable did. Whatever the duration and the time
  taken, a timer the wrapper made has had \<^verbatim>\<open>cancel()\<close> called on it and is not waiting when
  the wrapper is done: none is left running.
\<close>

theorem timeout_in_time_returns_and_cancels:
  "(py_float str_to_float seconds = Inr d \<and> 0 < d \<and> d \<le> timeout_max
      \<and> elapsed (func st) < d \<longrightarrow>
      timeout str_to_float timeout_max timer_first seconds msg func st =
        \<lparr>returned = outcome (func st),
         timer_left = Some \<lparr>interval = d, phase = Cancelled, finished = True\<rparr>,
         invoked = True,
         final = after (func st)\<rparr>)
   \<and> (py_float str_to_float seconds = Inr d \<and> 0 < d \<and> timeout_max < d \<longrightarrow>
      timeout str_to_float timeout_max timer_first seconds msg func st =
        \<lparr>returned = outcome (func (refused st)),
         timer_left = Some \<lparr>interval = d, phase = Crashed, finished = True\<rparr>,
         invoked = True,
         final = after (func (refused st))\<rparr>)
   \<and> (timer_left (timeout str_to_float timeout_max timer_first seconds msg func st) = Some t
        \<longrightarrow> finished t \<and> phase t \<noteq> Created \<and> phase t \<noteq> Started)"
proof -
  have 1: "py_float str_to_float seconds = Inr d \<and> 0 < d \<and> d \<le> timeout_max
      \<and> elapsed (func st) < d \<longrightarrow>
      timeout str_to_float timeout_max timer_first seconds msg func st =
        \<lparr>returned = outcome (func st),
         timer_left = Some \<lparr>interval = d, phase = Cancelled, finished = True\<rparr>,
         invoked = True,
         final = after (func st)\<rparr>"
    by (simp add: timeout_eq)
  have 2: "py_float str_to_float seconds = Inr d \<and> 0 < d \<and> timeout_max < d \<longrightarrow>
      timeout str_to_float timeout_max timer_first seconds msg func st =
        \<lparr>returned = outcome (func (refused st)),
         timer_left = Some \<lparr>interval = d, phase = Crashed, finished = True\<rparr>,
         invoked = True,
         final = after (func (refused st))\<rparr>"
    by (simp add: timeout_eq)
  have 3: "timer_left (timeout str_to_float timeout_max timer_first seconds msg func st) = Some t
        \<longrightarrow> finished t \<and> phase t \<noteq> Created \<and> phase t \<noteq> Started"
  proof (cases "py_float str_to_float seconds")
    case (Inl e)
    then show ?thesis by (simp add: timeout_eq)
  next
    case (Inr d')
    then show ?thesis by (auto simp add: timeout_eq)
  qed
  from 1 2 3 show ?thesis by blast
qed

text \<open>
  Half a second allowed, a tenth taken: once returning 7, once raising. And ten thousand
  million seconds allowed, more than the platform takes.
\<close>

theorem timeout_in_time_returns_and_cancels_witness:
  "py_float float_of_str (Number (1 / 2)) = Inr (1 / 2)
   \<and> 1 / 2 \<le> TIMEOUT_MAX
   \<and> elapsed (takes (1 / 10) (Inr (PInt 7)) fresh) < 1 / 2
   \<and> timeout float_of_str TIMEOUT_MAX False (Number (1 / 2)) ''Ping timed out.''
       (takes (1 / 10) (Inr (PInt 7))) fresh =
     \<lparr>returned = Inr (PInt 7),
      timer_left = Some \<lparr>interval = 1 / 2, phase = Cancelled, finished = True\<rparr>,
      invoked = True, final = fresh\<rparr>
   \<and> timeout float_of_str TIMEOUT_MAX False (Number (1 / 2)) ''Ping timed out.''
       (takes (1 / 10) (Inl (RuntimeError ''connection lost'') :: exn + pyval)) fresh =
     \<lparr>returned = Inl (RuntimeError ''connection lost''),
      timer_left = Some \<lparr>interval = 1 / 2, phase = Cancelled, finished = True\<rparr>,
      invoked = True, final = fresh\<rparr>
   \<and> TIMEOUT_MAX < 10000000000
   \<and> timeout float_of_str TIMEOUT_MAX False (Number 10000000000) ''Ping timed out.''
       (takes (1 / 10) (Inr (PInt 7))) fresh =
     \<lparr>returned = Inr (PInt 7),
      timer_left = Some \<lparr>interval = 10000000000, phase = Crashed, finished = True\<rparr>,
      invoked = True,
      final = fresh\<lparr>thread_errors := [OverflowError ''timeout value is too large'']\<rparr>\<rparr>
   \<and> finished \<lparr>interval = 1 / 2, phase = Cancelled, finished = True\<rparr>"
  using timeout_in_time_returns_and_cancels
      [where str_to_float = float_of_str and seconds = "Number (1 / 2)" and d = "1 / 2"
        and timeout_max = TIMEOUT_MAX
        and func = "takes (1 / 10) (Inr (PInt 7))" and st = fresh and timer_first = False
        and msg = "''Ping timed out.''"
        and t = "\<lparr>interval = 1 / 2, phase = Cancelled, finished = True\<rparr>"]
    timeout_in_time_returns_and_cancels
      [where str_to_float = float_of_str and seconds = "Number (1 / 2)" and d = "1 / 2"
        and timeout_max = TIMEOUT_MAX
        and func = "takes (1 / 10) (Inl (RuntimeError ''connection lost'') :: exn + pyval)"
        and st = fresh and timer_first = False and msg = "''Ping timed out.''"
        and t = "\<lparr>interval = 1 / 2, phase = Cancelled, finished = True\<rparr>"]
    timeout_in_time_returns_and_cancels
      [where str_to_float = float_of_str and seconds = "Number 10000000000"
        and d = 10000000000 and timeout_max = TIMEOUT_MAX
        and func = "takes (1 / 10) (Inr (PInt 7))" and st = fresh and timer_first = False
        and msg = "''Ping timed out.''"]
  by (simp add: py_float_def takes_def TIMEOUT_MAX_def refused_def thread_dies_def fresh_def)




text \<open>
  C1 does not hold of the code, against the decorator's own docstring. Whatever
  the duration and however long the callable takes, a callable that returns a value makes the
  wrapper return that value: the wrapper never raises \<^verbatim>\<open>RPCTimeoutError\<close> of its own. At
  the input given, half a second is allowed and the callable takes a second and returns 7:
  the timer fires, \<^verbatim>\<open>RPCTimeoutError\<close> is raised in the timer's thread and ends that thread,
  and the wrapper returns 7 to its caller.
\<close>

theorem timeout_late_call_returns_normally:
  "returned (timeout str_to_float timeout_max timer_first (Number d) msg (takes t (Inr v)) st)
     = Inr v
   \<and> timeout float_of_str TIMEOUT_MAX False (Number (1 / 2)) ''Timed out.''
       (takes 1 (Inr (PInt 7))) fresh =
     \<lparr>returned = Inr (PInt 7),
      timer_left = Some \<lparr>interval = 1 / 2, phase = Fired, finished = True\<rparr>,
      invoked = True, final = fresh\<lparr>thread_errors := [RPCTimeoutError ''Timed out.'']\<rparr>\<rparr>"
  by (simp add: timeout_eq py_float_def takes_def TIMEOUT_MAX_def thread_dies_def fresh_def)

text \<open>
  C6 does not hold of the code in what it says of expiry. With the default timeouts, \<open>ping\<close>
  runs under 0.5 seconds with the message \<^verbatim>\<open>Ping timed out.\<close> and
  \<open>_wait_for_response\<close> under 300 seconds with \<^verbatim>\<open>Timed out waiting for response.\<close>;
  when the base class's method takes longer (1 second, 301 seconds), the error with that
  message is raised in the timer's thread, and the method returns to its caller without
  failing. However long the base class's method takes, when it returns, \<open>ping\<close> returns
  \<open>None\<close> and \<open>_wait_for_response\<close> returns the response.
\<close>

theorem ping_and_wait_late_return_normally:
  "ping float_of_str TIMEOUT_MAX False (GDNBridge_class Map.empty) (takes 1 (Inr ())) connected =
     \<lparr>returned = Inr PNone,
      timer_left = Some \<lparr>interval = 1 / 2, phase = Fired, finished = True\<rparr>,
      invoked = True,
      final = connected\<lparr>thread_errors := [RPCTimeoutError ''Ping timed out.'']\<rparr>\<rparr>
   \<and> wait_for_response float_of_str TIMEOUT_MAX False (GDNBridge_class Map.empty)
       (answers 301 (Inr (PStr ''late''))) 7 connected =
     \<lparr>returned = Inr (PStr ''late''),
      timer_left = Some \<lparr>interval = 300, phase = Fired, finished = True\<rparr>,
      invoked = True,
      final =
        connected\<lparr>thread_errors := [RPCTimeoutError ''Timed out waiting for response.'']\<rparr>\<rparr>
   \<and> returned (ping str_to_float timeout_max timer_first (GDNBridge_class Map.empty)
        (takes t (Inr x)) st)
       = Inr PNone
   \<and> returned (wait_for_response str_to_float timeout_max timer_first
        (GDNBridge_class Map.empty) (answers t (Inr v)) uid st) = Inr v"
  by (simp add: ping_def wait_for_response_def timeout_eq py_float_def takes_def
      answers_def GDNBridge_class_def environ_get_def thread_errors_connected TIMEOUT_MAX_def
      thread_dies_def)

subsection \<open>Host queries\<close>

text \<open>
  C7. When reading the host's active document raises, \<open>get_active_document\<close> and
  \<open>get_active_document_path\<close> return \<open>None\<close>; so does \<open>get_active_document_path\<close> when the
  host gives no document, and when the document is there and reading its \<open>fullName\<close> or the
  \<open>fsName\<close> of that raises, as for a document never saved. When both reads succeed and give
  a string, the result is that path as \<^verbatim>\<open>six.ensure_str\<close> returns it, a string.
\<close>

theorem active_document_path_absent_on_failure:
  "(fst (activeDocument st) = Inl e \<longrightarrow>
      fst (get_active_document activeDocument st) = Inr PNone
      \<and> fst (get_active_document_path activeDocument fullName fsName ens st) = Inr PNone)
   \<and> (activeDocument st = (Inr doc, sa) \<and> \<not> truthy doc \<longrightarrow>
      get_active_document_path activeDocument fullName fsName ens st = (Inr PNone, sa))
   \<and> (activeDocument st = (Inr doc, sa) \<and> truthy doc \<and> fst (fullName doc sa) = Inl e \<longrightarrow>
      fst (get_active_document_path activeDocument fullName fsName ens st) = Inr PNone)
   \<and> (activeDocument st = (Inr doc, sa) \<and> truthy doc \<and> fullName doc sa = (Inr full, sb)
       \<and> fst (fsName full sb) = Inl e \<longrightarrow>
      fst (get_active_document_path activeDocument fullName fsName ens st) = Inr PNone)
   \<and> (activeDocument st = (Inr doc, sa) \<and> truthy doc \<and> fullName doc sa = (Inr full, sb)
       \<and> fsName full sb = (Inr (PStr p), sc) \<and> ens (PStr p) = Inr (PStr q) \<longrightarrow>
      get_active_document_path activeDocument fullName fsName ens st = (Inr (PStr q), sc))
   \<and> ensure_str (PStr p) = Inr (PStr p)"
proof -
  have 1: "fst (activeDocument st) = Inl e \<longrightarrow>
      fst (get_active_document activeDocument st) = Inr PNone
      \<and> fst (get_active_document_path activeDocument fullName fsName ens st) = Inr PNone"
    by (cases "activeDocument st")
      (simp add: get_active_document_path_def get_active_document_def)
  have 2: "activeDocument st = (Inr doc, sa) \<and> \<not> truthy doc \<longrightarrow>
      get_active_document_path activeDocument fullName fsName ens st = (Inr PNone, sa)"
    by (simp add: get_active_document_path_def get_active_document_def)
  have 3: "activeDocument st = (Inr doc, sa) \<and> truthy doc \<and> fst (fullName doc sa) = Inl e \<longrightarrow>
      fst (get_active_document_path activeDocument fullName fsName ens st) = Inr PNone"
    by (cases "fullName doc sa")
      (simp add: get_active_document_path_def get_active_document_def)
  have 4: "activeDocument st = (Inr doc, sa) \<and> truthy doc \<and> fullName doc sa = (Inr full, sb)
       \<and> fst (fsName full sb) = Inl e \<longrightarrow>
      fst (get_active_document_path activeDocument fullName fsName ens st) = Inr PNone"
    by (cases "fsName full sb")
      (simp add: get_active_document_path_def get_active_document_def)
  have 5: "activeDocument st = (Inr doc, sa) \<and> truthy doc \<and> fullName doc sa = (Inr full, sb)
       \<and> fsName full sb = (Inr (PStr p), sc) \<and> ens (PStr p) = Inr (PStr q) \<longrightarrow>
      get_active_document_path activeDocument fullName fsName ens st = (Inr (PStr q), sc)"
    by (simp add: get_active_document_path_def get_active_document_def)
  have 6: "ensure_str (PStr p) = Inr (PStr p)"
    by (simp add: ensure_str_def)
  from 1 2 3 4 5 6 show ?thesis by blast
qed

text \<open>
  A host that raises for the active document, one that gives \<open>None\<close>, one whose document
  was never saved (reading \<open>fullName\<close> raises, or reading \<open>fsName\<close> does), and one whose
  document is saved at \<^verbatim>\<open>/projects/shot010.psd\<close>.
\<close>

theorem active_document_path_absent_on_failure_witness:
  "fst (no_document connected) = Inl (RuntimeError ''No active document'')
   \<and> fst (get_active_document_path no_document saved_fullName saved_fsName ensure_str connected)
     = Inr PNone
   \<and> get_active_document_path none_document saved_fullName saved_fsName ensure_str connected
     = (Inr PNone, connected)
   \<and> fst (get_active_document_path open_document unsaved_fullName saved_fsName ensure_str
        connected)
     = Inr PNone
   \<and> fst (get_active_document_path open_document saved_fullName unsaved_fsName ensure_str
        connected)
     = Inr PNone
   \<and> get_active_document_path open_document saved_fullName saved_fsName ensure_str connected
     = (Inr (PStr ''/projects/shot010.psd''), connected)"
  using active_document_path_absent_on_failure
      [where activeDocument = no_document and st = connected
        and e = "RuntimeError ''No active document''" and fullName = saved_fullName
        and fsName = saved_fsName and ens = ensure_str]
    active_document_path_absent_on_failure
      [where activeDocument = none_document and st = connected and doc = PNone
        and sa = connected and fullName = saved_fullName and fsName = saved_fsName
        and ens = ensure_str]
    active_document_path_absent_on_failure
      [where activeDocument = open_document and st = connected and doc = "PObj ''Document''"
        and sa = connected and e = "RuntimeError ''The document has not been saved''"
        and fullName = unsaved_fullName and fsName = saved_fsName and ens = ensure_str]
    active_document_path_absent_on_failure
      [where activeDocument = open_document and st = connected and doc = "PObj ''Document''"
        and sa = connected and e = "RuntimeError ''The file has no path''"
        and fullName = saved_fullName and fsName = unsaved_fsName
        and full = "PObj ''File''" and sb = connected and ens = ensure_str]
    active_document_path_absent_on_failure
      [where activeDocument = open_document and st = connected and doc = "PObj ''Document''"
        and sa = connected and fullName = saved_fullName and fsName = saved_fsName
        and full = "PObj ''File''" and sb = connected and p = "''/projects/shot010.psd''"
        and sc = connected and q = "''/projects/shot010.psd''" and ens = ensure_str]
  by (simp add: no_document_def none_document_def open_document_def unsaved_fullName_def
      saved_fullName_def unsaved_fsName_def saved_fsName_def ensure_str_def)

end
